theory Spec2Isabelle
  imports Complex_Main "HOL-Library.AList"
begin

text \<open>
  A model of \<open>covasim/framework/model.py\<close>: the parameter store \<open>ParsObj\<close>, the
  \<open>Result\<close> series, and the ensemble functions \<open>single_run\<close> and \<open>multi_run\<close>.
  Line numbers are those of that file. Python objects are mutable, so the simulations
  live in a store and are passed by reference; exceptions are values of a sum type;
  what the file calls and does not define (sciris, numpy's random stream, the
  subclass's \<open>run\<close>) is a parameter. The \<open>print\<close> calls are left out, and a
  \<open>float\<close> is a real number.
\<close>

section \<open>Python values and exceptions\<close>

text \<open>
  A Python \<open>dict\<close> keeps its keys in insertion order and the order shows in the error
  messages of \<open>model.py\<close>, so a dict is an association list: \<open>d[key]\<close> is
  \<^const>\<open>map_of\<close>, \<open>d[key] = v\<close> is \<^const>\<open>AList.update\<close> (in place when the key is
  there, appended otherwise) and \<open>d.keys()\<close> is \<open>map fst d\<close>.
\<close>

type_synonym 'v dict = "(string \<times> 'v) list"

text \<open>
  The payload of a \<open>KeyError\<close>, one constructor for each place of \<open>model.py\<close> that can
  raise one. The f-string messages are kept as their arguments.
\<close>

datatype keyerr =
    Missing string
  | DidYouMean string string
  | Available string "string list"
  | Mismatches "string list" "string list"
  | NoGuess "string list" "string list"
  | InvalidName string

text \<open>
  The payload of a \<open>ValueError\<close>: \<open>set_seed\<close> called with a seed and
  \<open>randomize=True\<close>, two entries of \<open>iterpars\<close> of different lengths (the two lengths
  of the message), and numpy's refusal to add arrays of shapes that do not broadcast.
\<close>

datatype valerr =
    SeedAndRandomize
  | LengthsDiffer int int
  | Broadcast nat nat

datatype error =
    KeyError keyerr
  | TypeError
  | ValueError valerr
  | IndexError
  | NotImplementedError

text \<open>\<open>key in d\<close> for a dict.\<close>

definition has_key :: "'v dict \<Rightarrow> string \<Rightarrow> bool" where
  "has_key d key = (key \<in> set (map fst d))"

text \<open>\<open>d[key]\<close>: the dict's own lookup, which raises \<open>KeyError(key)\<close>.\<close>

definition dict_get :: "'v dict \<Rightarrow> string \<Rightarrow> error + 'v" where
  "dict_get d key = (case map_of d key of None \<Rightarrow> Inl (KeyError (Missing key)) | Some v \<Rightarrow> Inr v)"

text \<open>\<open>d.update(p)\<close>: the items of \<open>p\<close> are stored one after the other.\<close>

definition dict_update :: "'v dict \<Rightarrow> 'v dict \<Rightarrow> 'v dict" where
  "dict_update d p = fold (\<lambda>(k, v). AList.update k v) p d"

section \<open>ParsObj\<close>

text \<open>
  \<open>ParsObj.__getitem__\<close> (line 28): \<open>return self.pars[key]\<close>, nothing else.
\<close>

definition getitem :: "'v dict \<Rightarrow> string \<Rightarrow> error + 'v" where
  "getitem pars key = dict_get pars key"

text \<open>
  \<open>ParsObj.__setitem__\<close> (line 32). The method mutates \<open>self.pars\<close>; the model returns
  what the call gives (or raises) together with the dict afterwards. \<open>sc.suggest\<close>
  belongs to the sciris library and is a parameter: it returns a near match or
  \<open>None\<close>, and \<open>if suggestion:\<close> also rejects the empty string.
\<close>

definition setitem ::
  "(string \<Rightarrow> string list \<Rightarrow> string option) \<Rightarrow> string \<Rightarrow> 'v \<Rightarrow> 'v dict \<Rightarrow> (error + unit) \<times> 'v dict"
where
  "setitem suggest key val pars =
     (if has_key pars key then (Inr (), AList.update key val pars)
      else
        (case suggest key (map fst pars) of
           Some s \<Rightarrow>
             if s \<noteq> [] then (Inl (KeyError (DidYouMean key s)), pars)
             else (Inl (KeyError (Available key (map fst pars))), pars)
         | None \<Rightarrow> (Inl (KeyError (Available key (map fst pars))), pars)))"

text \<open>
  \<open>ParsObj.update_pars\<close> (line 46). The argument is a dict or something else
  (\<open>isinstance(pars, dict)\<close>); the state is the attribute \<open>self.pars\<close>, \<open>None\<close> while
  the object has no such attribute yet (\<open>hasattr\<close>), which is the case only inside
  \<open>__init__\<close>.
\<close>

datatype 'v arg = Dict "'v dict" | NotADict

definition update_pars ::
  "'v arg \<Rightarrow> bool \<Rightarrow> 'v dict option \<Rightarrow> (error + unit) \<times> 'v dict option"
where
  "update_pars pars create self =
     (case pars of
        NotADict \<Rightarrow> (Inl TypeError, self)
      | Dict p \<Rightarrow>
          (case self of
             None \<Rightarrow> (Inr (), Some p)
           | Some d \<Rightarrow>
               if \<not> create then
                 (let available_keys = map fst d;
                      mismatches = filter (\<lambda>key. key \<notin> set available_keys) (map fst p)
                  in if length mismatches \<noteq> 0
                     then (Inl (KeyError (Mismatches mismatches available_keys)), Some d)
                     else (Inr (), Some (dict_update d p)))
               else (Inr (), Some (dict_update d p))))"

text \<open>\<open>ParsObj.__init__\<close> (line 24).\<close>

definition ParsObj_init :: "'v arg \<Rightarrow> (error + unit) \<times> 'v dict option" where
  "ParsObj_init pars = update_pars pars True None"

section \<open>Parameter values\<close>

text \<open>
  What a parameter holds: a Python \<open>int\<close> (unbounded), a \<open>float\<close> (modelled as a real
  number, so rounding is left out) or a \<open>str\<close>. The three operations below are the
  arithmetic that \<open>single_run\<close> and \<open>multi_run\<close> perform on parameters; a \<open>str\<close> operand
  raises \<open>TypeError\<close>, except that \<open>str * int\<close> repeats the string.
\<close>

datatype pval = PInt int | PFloat real | PStr string

text \<open>\<open>x + ind\<close> with \<open>ind\<close> an \<open>int\<close> (line 312).\<close>

fun py_add_int :: "pval \<Rightarrow> int \<Rightarrow> error + pval" where
  "py_add_int (PInt s) i = Inr (PInt (s + i))"
| "py_add_int (PFloat x) i = Inr (PFloat (x + of_int i))"
| "py_add_int (PStr _) i = Inl TypeError"

text \<open>\<open>x * noisefactor\<close> with \<open>noisefactor\<close> a \<open>float\<close> (line 330).\<close>

fun py_mul_float :: "pval \<Rightarrow> real \<Rightarrow> error + pval" where
  "py_mul_float (PInt s) f = Inr (PFloat (of_int s * f))"
| "py_mul_float (PFloat x) f = Inr (PFloat (x * f))"
| "py_mul_float (PStr _) f = Inl TypeError"

text \<open>\<open>x * n\<close> with \<open>n\<close> an \<open>int\<close> (line 388).\<close>

fun py_mul_int :: "pval \<Rightarrow> int \<Rightarrow> error + pval" where
  "py_mul_int (PInt s) n = Inr (PInt (s * n))"
| "py_mul_int (PFloat x) n = Inr (PFloat (x * of_int n))"
| "py_mul_int (PStr t) n = Inr (PStr (concat (replicate (nat n) t)))"

text \<open>\<open>verbose >= 1\<close> (lines 332 and 339).\<close>

fun py_ge1 :: "pval \<Rightarrow> error + bool" where
  "py_ge1 (PInt v) = Inr (1 \<le> v)"
| "py_ge1 (PFloat x) = Inr (1 \<le> x)"
| "py_ge1 (PStr _) = Inl TypeError"

section \<open>Result\<close>

text \<open>
  The class \<open>Result\<close> (line 67); its array \<open>values\<close> is the field \<open>vals\<close>. The class
  defines \<open>__init__\<close>, \<open>__getitem__\<close>, \<open>__setitem__\<close> and \<open>npts\<close>, and no arithmetic.
\<close>

record Result =
  name :: string
  ispercentage :: bool
  scale :: bool
  vals :: "real list"

definition Result_init :: "string \<Rightarrow> real list option \<Rightarrow> nat option \<Rightarrow> bool \<Rightarrow> bool \<Rightarrow> Result" where
  "Result_init nm vs npts sc ispct =
     \<lparr>name = nm, ispercentage = ispct, scale = sc,
      vals = (case vs of
                Some xs \<Rightarrow> xs
              | None \<Rightarrow> (case npts of Some k \<Rightarrow> replicate k 0 | None \<Rightarrow> []))\<rparr>"

definition npts :: "Result \<Rightarrow> nat" where
  "npts r = length (vals r)"

text \<open>
  An entry of \<open>sim.results\<close>: a \<open>Result\<close> object or a bare numpy array
  (\<open>_make_resdict\<close>, line 226, tells the two apart).
\<close>

datatype resval = ResultObj Result | Array "real list"

text \<open>
  \<open>a += b\<close> on two entries (line 392). Two arrays are added element by element by
  numpy, in place; the right one may have one element, which is then added to every
  element of the left one; other shapes do not broadcast. \<open>Result\<close> has neither
  \<open>__iadd__\<close> nor \<open>__add__\<close> nor \<open>__radd__\<close>, so Python raises \<open>TypeError\<close> as soon as
  one operand is a \<open>Result\<close>.
\<close>

fun iadd :: "resval \<Rightarrow> resval \<Rightarrow> error + resval" where
  "iadd (Array xs) (Array ys) =
     (if length xs = length ys then Inr (Array (map2 (+) xs ys))
      else if length ys = 1 then Inr (Array (map (\<lambda>x. x + ys ! 0) xs))
      else Inl (ValueError (Broadcast (length xs) (length ys))))"
| "iadd (ResultObj a) b = Inl TypeError"
| "iadd (Array xs) (ResultObj b) = Inl TypeError"

section \<open>Sim, the object store and the collaborators\<close>

text \<open>
  The attributes of a \<open>Sim\<close> that \<open>single_run\<close> and \<open>multi_run\<close> touch. \<open>people\<close>,
  \<open>results\<close> and \<open>results_keys\<close> are set by the subclass that implements
  \<open>init_people\<close>, \<open>init_results\<close> and \<open>run\<close>; the type \<open>'p\<close> is its \<open>Person\<close>.
\<close>

record 'p Sim =
  pars :: "pval dict"
  people :: "'p dict"
  results :: "resval dict"
  results_keys :: "string list"

text \<open>
  Objects are mutable and passed by reference, so a \<open>Sim\<close> lives in a store: a
  reference is an index into \<open>heap\<close>. \<open>stream\<close> is the state of the global random
  number stream of type \<open>'g\<close>.
\<close>

record ('p, 'g) world =
  heap :: "'p Sim list"
  stream :: 'g

text \<open>
  What \<open>model.py\<close> calls and does not define: \<open>sc.suggest\<close>, \<open>cov_ut.set_seed\<close> (the
  argument \<open>None\<close> seeds from entropy), \<open>np.random.normal()\<close>, and \<open>run\<close>, which
  the base class leaves to its subclass (line 207). \<open>Sim_run\<close> receives the object and the
  stream and gives both back: it is called on the private copy, which shares nothing
  with the template.
\<close>

record ('p, 'g) env =
  sc_suggest :: "string \<Rightarrow> string list \<Rightarrow> string option"
  ut_set_seed :: "pval option \<Rightarrow> error + 'g"
  np_normal :: "'g \<Rightarrow> real \<times> 'g"
  Sim_run :: "pval \<Rightarrow> 'p Sim \<Rightarrow> 'g \<Rightarrow> (error + unit) \<times> 'p Sim \<times> 'g"

text \<open>
  A statement sequence that may raise: it maps the world to what it returns (or the
  exception) and the world it leaves.
\<close>

type_synonym ('p, 'g, 'a) M = "('p, 'g) world \<Rightarrow> (error + 'a) \<times> ('p, 'g) world"

definition returnM :: "'a \<Rightarrow> ('p, 'g, 'a) M" where
  "returnM x = (\<lambda>w. (Inr x, w))"

definition raiseM :: "error \<Rightarrow> ('p, 'g, 'a) M" where
  "raiseM e = (\<lambda>w. (Inl e, w))"

definition liftM :: "error + 'a \<Rightarrow> ('p, 'g, 'a) M" where
  "liftM r = (\<lambda>w. (r, w))"

definition bindM :: "('p, 'g, 'a) M \<Rightarrow> ('a \<Rightarrow> ('p, 'g, 'b) M) \<Rightarrow> ('p, 'g, 'b) M" where
  "bindM m f = (\<lambda>w. case m w of (Inl e, w') \<Rightarrow> (Inl e, w') | (Inr x, w') \<Rightarrow> f x w')"

text \<open>Reading an object, and \<open>sc.dcp\<close>: a deep copy is a new object with equal contents.\<close>

definition get_sim :: "nat \<Rightarrow> ('p, 'g, 'p Sim) M" where
  "get_sim a = (\<lambda>w. (Inr (heap w ! a), w))"

definition dcp :: "nat \<Rightarrow> ('p, 'g, nat) M" where
  "dcp a = (\<lambda>w. (Inr (length (heap w)), w\<lparr>heap := heap w @ [heap w ! a]\<rparr>))"

text \<open>\<open>sim[key]\<close> and \<open>sim[key] = val\<close> on the object at a reference.\<close>

definition sim_getitem :: "nat \<Rightarrow> string \<Rightarrow> ('p, 'g, pval) M" where
  "sim_getitem a key = (\<lambda>w. (getitem (pars (heap w ! a)) key, w))"

definition sim_setitem :: "('p, 'g) env \<Rightarrow> nat \<Rightarrow> string \<Rightarrow> pval \<Rightarrow> ('p, 'g, unit) M" where
  "sim_setitem env a key val =
     (\<lambda>w. case setitem (sc_suggest env) key val (pars (heap w ! a)) of
             (r, d) \<Rightarrow> (r, w\<lparr>heap := (heap w)[a := (heap w ! a)\<lparr>pars := d\<rparr>]\<rparr>))"

text \<open>\<open>cov_ut.set_seed(seed)\<close> resets the global stream.\<close>

definition cov_ut_set_seed :: "('p, 'g) env \<Rightarrow> pval option \<Rightarrow> ('p, 'g, unit) M" where
  "cov_ut_set_seed env seed =
     (\<lambda>w. case ut_set_seed env seed of
             Inl e \<Rightarrow> (Inl e, w)
           | Inr g \<Rightarrow> (Inr (), w\<lparr>stream := g\<rparr>))"

text \<open>\<open>Sim.set_seed\<close> (line 121).\<close>

definition set_seed :: "('p, 'g) env \<Rightarrow> nat \<Rightarrow> pval option \<Rightarrow> bool \<Rightarrow> ('p, 'g, unit) M" where
  "set_seed env self seed randomize =
     (if randomize then
        (case seed of
           None \<Rightarrow> cov_ut_set_seed env None
         | Some _ \<Rightarrow> raiseM (ValueError SeedAndRandomize))
      else
        (case seed of
           None \<Rightarrow> bindM (sim_getitem self ''seed'') (\<lambda>s. cov_ut_set_seed env (Some s))
         | Some s \<Rightarrow> bindM (sim_setitem env self ''seed'' s) (\<lambda>_. cov_ut_set_seed env (Some s))))"

text \<open>\<open>np.random.normal()\<close> draws from the global stream.\<close>

definition normal :: "('p, 'g) env \<Rightarrow> ('p, 'g, real) M" where
  "normal env = (\<lambda>w. case np_normal env (stream w) of (z, g) \<Rightarrow> (Inr z, w\<lparr>stream := g\<rparr>))"

text \<open>\<open>new_sim.run(verbose=verbose)\<close>: the subclass's method on the object at \<open>a\<close>.\<close>

definition run :: "('p, 'g) env \<Rightarrow> nat \<Rightarrow> pval \<Rightarrow> ('p, 'g, unit) M" where
  "run env a verbose =
     (\<lambda>w. case Sim_run env verbose (heap w ! a) (stream w) of
             (r, s, g) \<Rightarrow> (r, w\<lparr>heap := (heap w)[a := s], stream := g\<rparr>))"

section \<open>single_run\<close>

text \<open>
  Lines 307 to 313: the copy, the verbosity (an argument or the copy's parameter) and
  the seed. It returns the reference of the copy and the verbosity.
\<close>

definition seed_stage ::
  "('p, 'g) env \<Rightarrow> nat \<Rightarrow> int \<Rightarrow> pval option \<Rightarrow> ('p, 'g, nat \<times> pval) M"
where
  "seed_stage env sim ind verbose =
     bindM (dcp sim) (\<lambda>new_sim.
     bindM (case verbose of
              None \<Rightarrow> sim_getitem new_sim ''verbose''
            | Some v \<Rightarrow> returnM v) (\<lambda>verbose.
     bindM (sim_getitem new_sim ''seed'') (\<lambda>s.
     bindM (liftM (py_add_int s ind)) (\<lambda>s'.
     bindM (sim_setitem env new_sim ''seed'' s') (\<lambda>_.
     bindM (set_seed env new_sim None False) (\<lambda>_.
     returnM (new_sim, verbose)))))))"

text \<open>
  Lines 316 to 322: the noise parameter, guessed from the keys of the template
  (\<open>sim.pars\<close>, not the copy's) when it is not given.
\<close>

definition guesses :: "string list" where
  "guesses = [''r_contact'', ''r0'', ''beta'']"

definition guess_noisepar :: "pval dict \<Rightarrow> error + string" where
  "guess_noisepar sim_pars =
     (let found = filter (\<lambda>guess. has_key sim_pars guess) guesses
      in if length found \<noteq> 1 then Inl (KeyError (NoGuess guesses found))
         else Inr (found ! 0))"

definition noisepar_stage :: "nat \<Rightarrow> string option \<Rightarrow> ('p, 'g, string) M" where
  "noisepar_stage sim noisepar =
     (case noisepar of
        None \<Rightarrow> bindM (get_sim sim) (\<lambda>s. liftM (guess_noisepar (pars s)))
      | Some p \<Rightarrow> returnM p)"

text \<open>Lines 325 to 330: the noise factor and its application to the copy.\<close>

definition noisefactor :: "real \<Rightarrow> real" where
  "noisefactor noiseval = (if noiseval > 0 then 1 + noiseval else 1 / (1 - noiseval))"

definition noise_stage :: "('p, 'g) env \<Rightarrow> nat \<Rightarrow> real \<Rightarrow> string \<Rightarrow> ('p, 'g, real) M" where
  "noise_stage env new_sim noise noisepar =
     bindM (normal env) (\<lambda>z.
     bindM (sim_getitem new_sim noisepar) (\<lambda>x.
     bindM (liftM (py_mul_float x (noisefactor (noise * z)))) (\<lambda>x'.
     bindM (sim_setitem env new_sim noisepar x') (\<lambda>_.
     returnM (noisefactor (noise * z))))))"

text \<open>
  Lines 336 to 344, the loop over \<open>kwargs.items()\<close>. The assignment
  \<open>new_sim[key] = val\<close> stands inside \<open>if verbose>=1:\<close>, after the \<open>print\<close>.
\<close>

fun overrides :: "('p, 'g) env \<Rightarrow> nat \<Rightarrow> pval \<Rightarrow> pval dict \<Rightarrow> ('p, 'g, unit) M" where
  "overrides env new_sim verbose [] = returnM ()"
| "overrides env new_sim verbose ((key, val) # kwargs) =
     bindM (get_sim new_sim) (\<lambda>s.
       if has_key (pars s) key then
         bindM (liftM (py_ge1 verbose)) (\<lambda>b.
         bindM (if b then sim_setitem env new_sim key val else returnM ()) (\<lambda>_.
         overrides env new_sim verbose kwargs))
       else raiseM (KeyError (InvalidName key)))"

text \<open>
  Lines 315 to 349, all that follows the seeding: \<open>sim\<close> is the template,
  \<open>new_sim\<close> the copy.
\<close>

definition after_seed ::
  "('p, 'g) env \<Rightarrow> nat \<Rightarrow> nat \<Rightarrow> pval \<Rightarrow> real \<Rightarrow> string option \<Rightarrow> pval dict
     \<Rightarrow> ('p, 'g, nat) M"
where
  "after_seed env sim new_sim verbose noise noisepar kwargs =
     bindM (noisepar_stage sim noisepar) (\<lambda>noisepar.
     bindM (noise_stage env new_sim noise noisepar) (\<lambda>noisefactor.
     bindM (liftM (py_ge1 verbose)) (\<lambda>_.
     bindM (overrides env new_sim verbose kwargs) (\<lambda>_.
     bindM (run env new_sim verbose) (\<lambda>_.
     returnM new_sim)))))"

text \<open>\<open>single_run\<close> (line 295); it returns the reference of the copy.\<close>

definition single_run ::
  "('p, 'g) env \<Rightarrow> nat \<Rightarrow> int \<Rightarrow> real \<Rightarrow> string option \<Rightarrow> pval option \<Rightarrow> pval dict
     \<Rightarrow> ('p, 'g, nat) M"
where
  "single_run env sim ind noise noisepar verbose kwargs =
     bindM (seed_stage env sim ind verbose) (\<lambda>(new_sim, verbose).
     after_seed env sim new_sim verbose noise noisepar kwargs)"

section \<open>multi_run\<close>

text \<open>Lines 365 to 374: the number of runs, taken from \<open>iterpars\<close> when it is given.\<close>

fun iter_n :: "int option \<Rightarrow> (pval list) dict \<Rightarrow> error + int option" where
  "iter_n n [] = Inr n"
| "iter_n n ((key, val) # items) =
     (let new_n = int (length val)
      in case n of
           None \<Rightarrow> iter_n (Some new_n) items
         | Some m \<Rightarrow>
             if new_n \<noteq> m then Inl (ValueError (LengthsDiffer m new_n))
             else iter_n (Some new_n) items)"

definition handle_iterpars ::
  "int \<Rightarrow> (pval list) dict option \<Rightarrow> error + int option \<times> (pval list) dict"
where
  "handle_iterpars n iterpars =
     (case iterpars of
        None \<Rightarrow> Inr (Some n, [])
      | Some ip \<Rightarrow> (case iter_n None ip of Inl e \<Rightarrow> Inl e | Inr n' \<Rightarrow> Inr (n', ip)))"

text \<open>
  Lines 377 to 380. \<open>np.arange(n)\<close> raises \<open>TypeError\<close> on \<open>None\<close>.
  \<open>sc.parallelize\<close> calls \<open>single_run\<close> once for each index \<open>k\<close>, with \<open>ind=k\<close> and
  the \<open>k\<close>-th value of every entry of \<open>iterpars\<close> as a keyword argument, each call in a
  worker of its own that starts from the caller's world, and returns the objects in
  the order of the indices; the first run that raises ends the call. The keys of
  \<open>iterpars\<close> are taken to be none of \<open>single_run\<close>'s own argument names.
\<close>

fun parallelize ::
  "('p, 'g) env \<Rightarrow> ('p, 'g) world \<Rightarrow> nat \<Rightarrow> real \<Rightarrow> string option \<Rightarrow> pval option
     \<Rightarrow> (pval list) dict \<Rightarrow> nat list \<Rightarrow> error + 'p Sim list"
where
  "parallelize env w sim noise noisepar verbose iterpars [] = Inr []"
| "parallelize env w sim noise noisepar verbose iterpars (k # ks) =
     (case single_run env sim (int k) noise noisepar verbose
             (map (\<lambda>(key, val). (key, val ! k)) iterpars) w of
        (Inl e, _) \<Rightarrow> Inl e
      | (Inr a, w') \<Rightarrow>
          (case parallelize env w sim noise noisepar verbose iterpars ks of
             Inl e \<Rightarrow> Inl e
           | Inr sims \<Rightarrow> Inr (heap w' ! a # sims)))"

text \<open>Lines 391 and 392: \<open>for key in sim.results_keys: output_sim.results[key] += sim.results[key]\<close>.\<close>

fun add_results :: "string list \<Rightarrow> resval dict \<Rightarrow> resval dict \<Rightarrow> error + resval dict" where
  "add_results [] out res = Inr out"
| "add_results (key # keys) out res =
     (case dict_get out key of
        Inl e \<Rightarrow> Inl e
      | Inr a \<Rightarrow>
          (case dict_get res key of
             Inl e \<Rightarrow> Inl e
           | Inr b \<Rightarrow>
               (case iadd a b of
                  Inl e \<Rightarrow> Inl e
                | Inr c \<Rightarrow> add_results keys (AList.update key c out) res)))"

text \<open>Lines 389 to 392: \<open>for sim in sims[1:]\<close>.\<close>

fun merge_sims :: "'p Sim \<Rightarrow> 'p Sim list \<Rightarrow> error + 'p Sim" where
  "merge_sims output_sim [] = Inr output_sim"
| "merge_sims output_sim (sim # sims) =
     (let merged = output_sim\<lparr>people := dict_update (people output_sim) (people sim)\<rparr>
      in case add_results (results_keys sim) (results merged) (results sim) of
           Inl e \<Rightarrow> Inl e
         | Inr r \<Rightarrow> merge_sims (merged\<lparr>results := r\<rparr>) sims)"

text \<open>Lines 386 to 393: the \<open>combine\<close> branch. \<open>sims[0]\<close> of an empty list raises.\<close>

definition combine_sims :: "int \<Rightarrow> 'p Sim list \<Rightarrow> error + 'p Sim" where
  "combine_sims n sims =
     (case sims of
        [] \<Rightarrow> Inl IndexError
      | first # others \<Rightarrow>
          (let output_sim = first\<lparr>pars := AList.update ''parallelized'' (PInt n) (pars first)\<rparr>
           in case dict_get (pars output_sim) ''n'' of
                Inl e \<Rightarrow> Inl e
              | Inr v \<Rightarrow>
                  (case py_mul_int v n of
                     Inl e \<Rightarrow> Inl e
                   | Inr v' \<Rightarrow>
                       merge_sims (output_sim\<lparr>pars := AList.update ''n'' v' (pars output_sim)\<rparr>)
                         others)))"

text \<open>\<open>multi_run\<close> (line 352): the list of the runs, or the combined one.\<close>

datatype 'p multi_out = Sims "'p Sim list" | Combined "'p Sim"

definition multi_run ::
  "('p, 'g) env \<Rightarrow> ('p, 'g) world \<Rightarrow> nat \<Rightarrow> int \<Rightarrow> real \<Rightarrow> string option
     \<Rightarrow> (pval list) dict option \<Rightarrow> pval option \<Rightarrow> bool \<Rightarrow> error + 'p multi_out"
where
  "multi_run env w sim n noise noisepar iterpars verbose combine =
     (case handle_iterpars n iterpars of
        Inl e \<Rightarrow> Inl e
      | Inr (n', ip) \<Rightarrow>
          (case n' of
             None \<Rightarrow> Inl TypeError
           | Some m \<Rightarrow>
               (case parallelize env w sim noise noisepar verbose ip [0..<nat m] of
                  Inl e \<Rightarrow> Inl e
                | Inr sims \<Rightarrow>
                    if \<not> combine then Inr (Sims sims)
                    else (case combine_sims m sims of
                            Inl e \<Rightarrow> Inl e
                          | Inr s \<Rightarrow> Inr (Combined s)))))"

section \<open>Notions for the proofs\<close>

text \<open>
  \<open>keeps n m\<close>: the statements \<open>m\<close> leave the first \<open>n\<close> objects of the store as they
  are and allocate nothing. \<open>gives x m\<close>: when \<open>m\<close> returns, it returns \<open>x\<close>.
\<close>

definition keeps :: "nat \<Rightarrow> ('p, 'g, 'a) M \<Rightarrow> bool" where
  "keeps n m = (\<forall>w. n \<le> length (heap w) \<longrightarrow>
      take n (heap (snd (m w))) = take n (heap w) \<and> length (heap (snd (m w))) = length (heap w))"

definition gives :: "'a \<Rightarrow> ('p, 'g, 'a) M \<Rightarrow> bool" where
  "gives x m = (\<forall>w a w'. m w = (Inr a, w') \<longrightarrow> a = x)"

text \<open>
  What \<open>single_run\<close> does after \<open>sc.dcp\<close>, as one sequence on the reference of
  the copy: lines 309 to 349.
\<close>

definition on_copy ::
  "('p, 'g) env \<Rightarrow> nat \<Rightarrow> nat \<Rightarrow> int \<Rightarrow> real \<Rightarrow> string option \<Rightarrow> pval option \<Rightarrow> pval dict
     \<Rightarrow> ('p, 'g, nat) M"
where
  "on_copy env sim new_sim ind noise noisepar verbose kwargs =
     bindM (case verbose of
              None \<Rightarrow> sim_getitem new_sim ''verbose''
            | Some v \<Rightarrow> returnM v) (\<lambda>verbose.
     bindM (sim_getitem new_sim ''seed'') (\<lambda>s.
     bindM (liftM (py_add_int s ind)) (\<lambda>s'.
     bindM (sim_setitem env new_sim ''seed'' s') (\<lambda>_.
     bindM (set_seed env new_sim None False) (\<lambda>_.
     after_seed env sim new_sim verbose noise noisepar kwargs)))))"

section \<open>Concrete inputs\<close>

text \<open>
  Collaborators for the examples: no suggestion, a stream that is the seed it was
  reset with, a draw that is always 0, and a \<open>run\<close> that changes nothing.
\<close>

definition demo_env :: "(unit, pval option) env" where
  "demo_env = \<lparr>sc_suggest = (\<lambda>key keys. None), ut_set_seed = (\<lambda>seed. Inr seed),
     np_normal = (\<lambda>g. (0, g)), Sim_run = (\<lambda>verbose s g. (Inr (), s, g))\<rparr>"

definition demo_sim :: "unit Sim" where
  "demo_sim = \<lparr>pars = [(''seed'', PInt 1), (''verbose'', PInt 0), (''beta'', PFloat 2),
       (''n'', PInt 100)],
     people = [], results = [], results_keys = []\<rparr>"

definition demo_world :: "(unit, pval option) world" where
  "demo_world = \<lparr>heap = [demo_sim], stream = None\<rparr>"

text \<open>An \<open>sc.suggest\<close> that proposes \<open>beta\<close> for every key.\<close>

definition suggest_beta :: "string \<Rightarrow> string list \<Rightarrow> string option" where
  "suggest_beta key keys = Some ''beta''"

text \<open>A template with two of the candidate noise parameters.\<close>

definition demo_world2 :: "(unit, pval option) world" where
  "demo_world2 = \<lparr>heap = [demo_sim\<lparr>pars := pars demo_sim @ [(''r0'', PFloat 3)]\<rparr>], stream = None\<rparr>"

text \<open>
  Two completed runs for \<open>combine\<close>: eleven points, the first run's
  \<open>new_infections\<close> sum to 50 and the second's to 70. \<open>demo_env_results\<close> is a
  \<open>run\<close> that stores such a \<open>Result\<close>, 50 for the seed 1 and 70 otherwise.
\<close>

definition infections :: "real \<Rightarrow> Result" where
  "infections x = Result_init ''new_infections'' (Some [x, 0, 0, 0, 0, 0, 0, 0, 0, 0, 0]) None True False"

definition demo_done :: "resval \<Rightarrow> unit Sim" where
  "demo_done res = demo_sim\<lparr>results := [(''new_infections'', res)],
     results_keys := [''new_infections'']\<rparr>"

definition demo_env_results :: "(unit, pval option) env" where
  "demo_env_results = demo_env\<lparr>Sim_run := (\<lambda>verbose s g.
     (Inr (),
      s\<lparr>results := [(''new_infections'',
             ResultObj (infections (if dict_get (pars s) ''seed'' = Inr (PInt 1) then 50 else 70)))],
        results_keys := [''new_infections'']\<rparr>,
      g))\<rparr>"

section \<open>Facts about dicts\<close>


lemma map_of_dict_update: "map_of (dict_update d p) = map_of d ++ map_of (rev p)"
  unfolding dict_update_def
proof (induction p arbitrary: d)
  case Nil
  show ?case by simp
next
  case (Cons kv p)
  obtain k v where kv: "kv = (k, v)" by (cases kv)
  have "map_of (fold (\<lambda>(k, v). AList.update k v) p (AList.update k v d))
        = map_of (AList.update k v d) ++ map_of (rev p)"
    by (rule Cons.IH)
  also have "\<dots> = map_of d ++ map_of (rev p @ [(k, v)])"
    by (simp add: update_conv' map_add_def fun_eq_iff split: option.splits)
  finally show ?case by (simp add: kv)
qed

lemma keys_dict_update: "set (map fst (dict_update d p)) = set (map fst d) \<union> set (map fst p)"
  unfolding dict_update_def
proof (induction p arbitrary: d)
  case Nil
  show ?case by simp
next
  case (Cons kv p)
  obtain k v where kv: "kv = (k, v)" by (cases kv)
  show ?case using Cons.IH [of "AList.update k v d"]
    by (auto simp: kv dom_update)
qed

lemma map_of_rev_distinct: "distinct (map fst p) \<Longrightarrow> map_of (rev p) = map_of p"
  by (rule map_of_inject_set [THEN iffD2]) (simp_all add: distinct_rev rev_map [symmetric])

lemma getitem_dict_update:
  assumes "distinct (map fst p)" "(k, v) \<in> set p"
  shows "getitem (dict_update d p) k = Inr v"
  using assms
  by (simp add: getitem_def dict_get_def map_of_dict_update map_of_rev_distinct map_add_def)

lemma getitem_dict_update_other:
  assumes "\<not> has_key p k"
  shows "getitem (dict_update d p) k = getitem d k"
proof -
  have "map_of (rev p) k = None"
    using assms by (simp add: has_key_def map_of_eq_None_iff)
  then show ?thesis
    by (simp add: getitem_def dict_get_def map_of_dict_update map_add_def)
qed

section \<open>Properties of the parameter store\<close>

text \<open>
  C7. For every store and every key in it, \<open>set(key, v)\<close> succeeds and a following
  \<open>get(key)\<close> returns \<open>v\<close>. For every key that is not in the store, \<open>set(key, v)\<close>
  raises the \<open>KeyError\<close> of line 43 (the spec's UnknownParameter), with the suggestion
  or with the list of the keys, and the store is the one it was before the call.
\<close>

theorem setitem_then_getitem:
  "(has_key store key \<longrightarrow>
      (\<exists>store'. setitem suggest key v store = (Inr (), store') \<and> getitem store' key = Inr v))
   \<and> (\<not> has_key store key \<longrightarrow>
      (\<exists>e. setitem suggest key v store = (Inl (KeyError e), store)
         \<and> (e = Available key (map fst store) \<or> (\<exists>s. e = DidYouMean key s))))"
  by (auto simp: setitem_def getitem_def dict_get_def update_conv' split: option.splits)

theorem setitem_then_getitem_witness:
  "has_key [(''beta'', PFloat 2), (''seed'', PInt 1)] ''beta''
   \<and> (\<exists>store'. setitem (sc_suggest demo_env) ''beta'' (PFloat 3)
                    [(''beta'', PFloat 2), (''seed'', PInt 1)] = (Inr (), store')
        \<and> getitem store' ''beta'' = Inr (PFloat 3))
   \<and> \<not> has_key [(''beta'', PFloat 2), (''seed'', PInt 1)] ''betta''
   \<and> setitem (sc_suggest demo_env) ''betta'' (PFloat 3) [(''beta'', PFloat 2), (''seed'', PInt 1)]
       = (Inl (KeyError (Available ''betta'' [''beta'', ''seed''])),
          [(''beta'', PFloat 2), (''seed'', PInt 1)])"
  using setitem_then_getitem
    [of "[(''beta'', PFloat 2), (''seed'', PInt 1)]" "''beta''" "sc_suggest demo_env" "PFloat 3"]
  by (simp add: has_key_def setitem_def demo_env_def)

text \<open>
  C8, as the code has it. \<open>get(key)\<close> returns the stored value when the key is in the
  store. When it is not, \<open>__getitem__\<close> raises the dict's own \<open>KeyError\<close>, which carries
  the missing key and nothing else: neither a suggested near match nor the list of
  the valid keys. Only \<open>__setitem__\<close> builds those messages.
\<close>

theorem getitem_plain_KeyError:
  assumes "distinct (map fst store)"
  shows "((key, v) \<in> set store \<longrightarrow> getitem store key = Inr v)
       \<and> (\<not> has_key store key \<longrightarrow> getitem store key = Inl (KeyError (Missing key)))"
  using assms
  by (auto simp: getitem_def dict_get_def has_key_def map_of_eq_None_iff [symmetric])

theorem getitem_plain_KeyError_witness:
  "distinct (map fst [(''beta'', PFloat 2), (''seed'', PInt 1)])
   \<and> (''seed'', PInt 1) \<in> set [(''beta'', PFloat 2), (''seed'', PInt 1)]
   \<and> getitem [(''beta'', PFloat 2), (''seed'', PInt 1)] ''seed'' = Inr (PInt 1)
   \<and> \<not> has_key [(''beta'', PFloat 2), (''seed'', PInt 1)] ''betta''
   \<and> getitem [(''beta'', PFloat 2), (''seed'', PInt 1)] ''betta''
       = Inl (KeyError (Missing ''betta''))"
  using getitem_plain_KeyError
    [of "[(''beta'', PFloat 2), (''seed'', PInt 1)]" "''seed''" "PInt 1"]
  by (simp add: has_key_def getitem_def dict_get_def)

text \<open>
  C8 as the spec words it fails: in the store with the one key \<open>beta\<close>, \<open>get\<close> of
  \<open>betta\<close> raises \<open>KeyError('betta')\<close>, not the message with the near match \<open>beta\<close>
  and not the one with the list of keys, while \<open>set\<close> of the same key on the same
  store does name the near match.
\<close>

theorem getitem_no_suggestion_counterexample:
  "getitem [(''beta'', PFloat 2)] ''betta'' = Inl (KeyError (Missing ''betta''))
   \<and> getitem [(''beta'', PFloat 2)] ''betta'' \<noteq> Inl (KeyError (DidYouMean ''betta'' ''beta''))
   \<and> getitem [(''beta'', PFloat 2)] ''betta'' \<noteq> Inl (KeyError (Available ''betta'' [''beta'']))
   \<and> fst (setitem suggest_beta ''betta'' (PFloat 3) [(''beta'', PFloat 2)])
       = Inl (KeyError (DidYouMean ''betta'' ''beta''))"
  by (simp add: getitem_def dict_get_def setitem_def has_key_def suggest_beta_def)

text \<open>
  C9. On a constructed store (the attribute \<open>pars\<close> exists) and for a dict \<open>p\<close>:
  \<open>update_pars(p, create=False)\<close> raises the \<open>KeyError\<close> of line 61 as soon as one key
  of \<open>p\<close> is not in the store, and then the store is the one before the call, no key
  modified; with \<open>create=True\<close>, or when every key is known, the call succeeds, every
  item of \<open>p\<close> can be read back and the keys outside \<open>p\<close> keep their values.
\<close>

theorem update_pars_all_or_nothing:
  assumes "distinct (map fst p)"
  shows "(\<not> create \<and> (\<exists>key \<in> set (map fst p). \<not> has_key d key) \<longrightarrow>
            update_pars (Dict p) create (Some d)
              = (Inl (KeyError (Mismatches (filter (\<lambda>key. \<not> has_key d key) (map fst p))
                                  (map fst d))), Some d))
       \<and> (create \<or> (\<forall>key \<in> set (map fst p). has_key d key) \<longrightarrow>
            (\<exists>d'. update_pars (Dict p) create (Some d) = (Inr (), Some d')
               \<and> (\<forall>(key, v) \<in> set p. getitem d' key = Inr v)
               \<and> (\<forall>key. \<not> has_key p key \<longrightarrow> getitem d' key = getitem d key)))"
proof (intro conjI impI)
  assume a: "\<not> create \<and> (\<exists>key \<in> set (map fst p). \<not> has_key d key)"
  then have "filter (\<lambda>key. key \<notin> set (map fst d)) (map fst p) \<noteq> []"
    by (auto simp: filter_empty_conv has_key_def)
  with a show "update_pars (Dict p) create (Some d)
      = (Inl (KeyError (Mismatches (filter (\<lambda>key. \<not> has_key d key) (map fst p))
                          (map fst d))), Some d)"
    by (simp add: update_pars_def has_key_def)
next
  assume a: "create \<or> (\<forall>key \<in> set (map fst p). has_key d key)"
  have "filter (\<lambda>key. key \<notin> set (map fst d)) (map fst p) = []" if "\<not> create"
    using a that by (auto simp: filter_empty_conv has_key_def)
  then have "update_pars (Dict p) create (Some d) = (Inr (), Some (dict_update d p))"
    by (auto simp: update_pars_def)
  moreover have "\<forall>(key, v) \<in> set p. getitem (dict_update d p) key = Inr v"
    using assms by (auto intro: getitem_dict_update)
  moreover have "\<forall>key. \<not> has_key p key \<longrightarrow> getitem (dict_update d p) key = getitem d key"
    by (simp add: getitem_dict_update_other)
  ultimately show "\<exists>d'. update_pars (Dict p) create (Some d) = (Inr (), Some d')
               \<and> (\<forall>(key, v) \<in> set p. getitem d' key = Inr v)
               \<and> (\<forall>key. \<not> has_key p key \<longrightarrow> getitem d' key = getitem d key)"
    by blast
qed

theorem update_pars_all_or_nothing_witness:
  "distinct (map fst [(''beta'', PFloat 3), (''gamma'', PInt 7)])
   \<and> \<not> has_key [(''beta'', PFloat 2), (''seed'', PInt 1)] ''gamma''
   \<and> update_pars (Dict [(''beta'', PFloat 3), (''gamma'', PInt 7)]) False
        (Some [(''beta'', PFloat 2), (''seed'', PInt 1)])
       = (Inl (KeyError (Mismatches [''gamma''] [''beta'', ''seed''])),
          Some [(''beta'', PFloat 2), (''seed'', PInt 1)])
   \<and> (\<exists>d'. update_pars (Dict [(''beta'', PFloat 3), (''gamma'', PInt 7)]) True
               (Some [(''beta'', PFloat 2), (''seed'', PInt 1)]) = (Inr (), Some d')
          \<and> getitem d' ''beta'' = Inr (PFloat 3)
          \<and> getitem d' ''gamma'' = Inr (PInt 7)
          \<and> getitem d' ''seed'' = Inr (PInt 1))"
  using update_pars_all_or_nothing
          [of "[(''beta'', PFloat 3), (''gamma'', PInt 7)]" False
              "[(''beta'', PFloat 2), (''seed'', PInt 1)]"]
        update_pars_all_or_nothing
          [of "[(''beta'', PFloat 3), (''gamma'', PInt 7)]" True
              "[(''beta'', PFloat 2), (''seed'', PInt 1)]"]
  by (simp add: has_key_def update_pars_def dict_update_def getitem_def dict_get_def)

section \<open>Facts about statement sequences and the stages of single_run\<close>

lemma bindM_apply:
  "bindM m f w = (case m w of (Inl e, w') \<Rightarrow> (Inl e, w') | (Inr x, w') \<Rightarrow> f x w')"
  by (simp add: bindM_def)

lemma bindM_Inr: "m w = (Inr x, w') \<Longrightarrow> bindM m f w = f x w'"
  by (simp add: bindM_def)

lemma bindM_Inl: "m w = (Inl e, w') \<Longrightarrow> bindM m f w = (Inl e, w')"
  by (simp add: bindM_def)

lemma bindM_assoc: "bindM (bindM m f) g = bindM m (\<lambda>x. bindM (f x) g)"
  by (auto simp: bindM_def fun_eq_iff split: prod.splits sum.splits)

lemma bindM_returnM: "bindM (returnM x) f = f x"
  by (simp add: bindM_def returnM_def)

lemma keepsI:
  assumes "\<And>w. n \<le> length (heap w) \<Longrightarrow> take n (heap (snd (m w))) = take n (heap w)"
    and "\<And>w. n \<le> length (heap w) \<Longrightarrow> length (heap (snd (m w))) = length (heap w)"
  shows "keeps n m"
  using assms by (simp add: keeps_def)

lemma keeps_returnM: "keeps n (returnM x)"
  by (simp add: keeps_def returnM_def)

lemma keeps_raiseM: "keeps n (raiseM e)"
  by (simp add: keeps_def raiseM_def)

lemma keeps_liftM: "keeps n (liftM r)"
  by (simp add: keeps_def liftM_def)

lemma keeps_bindM:
  assumes "keeps n m" and "\<And>x. keeps n (f x)"
  shows "keeps n (bindM m f)"
proof (rule keepsI)
  fix w :: "('a, 'b) world"
  assume n: "n \<le> length (heap w)"
  obtain r w1 where mw: "m w = (r, w1)" by (cases "m w")
  from assms(1) n mw have 1: "take n (heap w1) = take n (heap w)" "length (heap w1) = length (heap w)"
    by (auto simp: keeps_def dest!: spec [of _ w])
  show "take n (heap (snd (bindM m f w))) = take n (heap w)"
  proof (cases r)
    case (Inl e)
    with mw 1 show ?thesis by (simp add: bindM_def)
  next
    case (Inr x)
    from assms(2) [of x] n 1 have "take n (heap (snd (f x w1))) = take n (heap w1)"
      by (auto simp: keeps_def dest!: spec [of _ w1])
    with Inr mw 1 show ?thesis by (simp add: bindM_def)
  qed
  show "length (heap (snd (bindM m f w))) = length (heap w)"
  proof (cases r)
    case (Inl e)
    with mw 1 show ?thesis by (simp add: bindM_def)
  next
    case (Inr x)
    from assms(2) [of x] n 1 have "length (heap (snd (f x w1))) = length (heap w1)"
      by (auto simp: keeps_def dest!: spec [of _ w1])
    with Inr mw 1 show ?thesis by (simp add: bindM_def)
  qed
qed

lemma keeps_get_sim: "keeps n (get_sim a)"
  by (simp add: keeps_def get_sim_def)

lemma keeps_sim_getitem: "keeps n (sim_getitem a key)"
  by (simp add: keeps_def sim_getitem_def)

lemma keeps_sim_setitem: "n \<le> a \<Longrightarrow> keeps n (sim_setitem env a key val)"
  by (simp add: keeps_def sim_setitem_def split: prod.splits)

lemma keeps_cov_ut_set_seed: "keeps n (cov_ut_set_seed env seed)"
  by (simp add: keeps_def cov_ut_set_seed_def split: sum.splits)

lemma keeps_normal: "keeps n (normal env)"
  by (simp add: keeps_def normal_def split: prod.splits)

lemma keeps_run: "n \<le> a \<Longrightarrow> keeps n (run env a verbose)"
  by (simp add: keeps_def run_def split: prod.splits)

lemma keeps_set_seed: "n \<le> a \<Longrightarrow> keeps n (set_seed env a seed randomize)"
  unfolding set_seed_def
  by (auto split: option.splits
      intro!: keeps_bindM keeps_raiseM keeps_cov_ut_set_seed keeps_sim_getitem keeps_sim_setitem)

lemma keeps_overrides: "n \<le> a \<Longrightarrow> keeps n (overrides env a verbose kwargs)"
proof (induction kwargs)
  case Nil
  show ?case by (simp add: keeps_returnM)
next
  case (Cons kv kwargs)
  obtain key val where kv: "kv = (key, val)" by (cases kv)
  show ?case unfolding kv overrides.simps
    using Cons
    by (auto intro!: keeps_bindM keeps_get_sim keeps_liftM keeps_raiseM keeps_returnM keeps_sim_setitem)
qed

lemma keeps_noisepar_stage: "keeps n (noisepar_stage sim noisepar)"
  unfolding noisepar_stage_def
  by (auto split: option.splits intro!: keeps_bindM keeps_get_sim keeps_liftM keeps_returnM)

lemma keeps_noise_stage: "n \<le> a \<Longrightarrow> keeps n (noise_stage env a noise noisepar)"
  unfolding noise_stage_def
  by (auto intro!: keeps_bindM keeps_normal keeps_sim_getitem keeps_liftM keeps_sim_setitem keeps_returnM)

lemma keeps_after_seed: "n \<le> a \<Longrightarrow> keeps n (after_seed env sim a verbose noise noisepar kwargs)"
  unfolding after_seed_def
  by (auto intro!: keeps_bindM keeps_noisepar_stage keeps_noise_stage keeps_liftM keeps_overrides
      keeps_run keeps_returnM)

lemma gives_returnM: "gives x (returnM x)"
  by (simp add: gives_def returnM_def)

lemma gives_bindM: "(\<And>y. gives x (f y)) \<Longrightarrow> gives x (bindM m f)"
  by (auto simp: gives_def bindM_def split: prod.splits sum.splits)

lemma gives_after_seed: "gives a (after_seed env sim a verbose noise noisepar kwargs)"
  unfolding after_seed_def
  by (intro gives_bindM gives_returnM)

lemma single_run_on_copy:
  "single_run env sim ind noise noisepar verbose kwargs =
     bindM (dcp sim) (\<lambda>new_sim. on_copy env sim new_sim ind noise noisepar verbose kwargs)"
  by (simp add: single_run_def seed_stage_def on_copy_def bindM_assoc bindM_returnM)

lemma keeps_on_copy: "n \<le> a \<Longrightarrow> keeps n (on_copy env sim a ind noise noisepar verbose kwargs)"
  unfolding on_copy_def
  by (auto split: option.splits
      intro!: keeps_bindM keeps_sim_getitem keeps_returnM keeps_liftM keeps_sim_setitem
        keeps_set_seed keeps_after_seed)

lemma gives_on_copy: "gives a (on_copy env sim a ind noise noisepar verbose kwargs)"
  unfolding on_copy_def
  by (intro gives_bindM gives_after_seed)


lemma demo_single_run:
  "single_run demo_env 0 3 0 None None [] demo_world =
     (Inr 1, \<lparr>heap = [demo_sim, demo_sim\<lparr>pars := [(''seed'', PInt 4), (''verbose'', PInt 0),
         (''beta'', PFloat 2), (''n'', PInt 100)]\<rparr>], stream = Some (PInt 4)\<rparr>)"
  by (simp add: single_run_def seed_stage_def after_seed_def noisepar_stage_def noise_stage_def
      bindM_def returnM_def raiseM_def liftM_def
     dcp_def get_sim_def sim_getitem_def sim_setitem_def getitem_def setitem_def dict_get_def has_key_def
     set_seed_def cov_ut_set_seed_def normal_def run_def guess_noisepar_def guesses_def noisefactor_def demo_env_def demo_sim_def demo_world_def)

lemma one_guess:
  "(length (filter P guesses) = 1) = (\<exists>!g. g \<in> set guesses \<and> P g)"
  by (auto simp: guesses_def)

lemma seed_stage_frame:
  assumes "r < length (heap w)" and "seed_stage env r' ind verbose w = (res, w1)"
  shows "heap w1 ! r = heap w ! r"
  using assms
  by (auto simp: seed_stage_def bindM_def dcp_def sim_getitem_def returnM_def liftM_def raiseM_def
        sim_setitem_def setitem_def set_seed_def cov_ut_set_seed_def nth_append
        split: sum.splits option.splits prod.splits if_splits)

lemma guess_noisepar_one:
  assumes "length (filter (has_key d) guesses) = 1"
  shows "\<exists>g \<in> set guesses. has_key d g \<and> guess_noisepar d = Inr g"
proof -
  from assms obtain g where g: "filter (has_key d) guesses = [g]"
    by (cases "filter (has_key d) guesses") auto
  then have "g \<in> set (filter (has_key d) guesses)" by simp
  then have "g \<in> set guesses" "has_key d g" by auto
  moreover have "guess_noisepar d = Inr g"
    using g by (simp add: guess_noisepar_def)
  ultimately show ?thesis by blast
qed

lemma after_seed_guess:
  assumes "guess_noisepar (pars (heap w ! r)) = Inr g"
  shows "after_seed env r a v noise None kwargs w = after_seed env r a v noise (Some g) kwargs w"
  using assms
  by (simp add: after_seed_def noisepar_stage_def bindM_def get_sim_def liftM_def returnM_def)

lemma after_seed_no_guess:
  assumes "guess_noisepar (pars (heap w ! r)) = Inl e"
  shows "after_seed env r a v noise None kwargs w = (Inl e, w)"
  using assms
  by (simp add: after_seed_def noisepar_stage_def bindM_def get_sim_def liftM_def)

lemma single_run_guess_length:
  assumes "r < length (heap w)"
  shows "(length (filter (has_key (pars (heap w ! r))) guesses) = 1 \<longrightarrow>
           (\<exists>g \<in> set guesses. has_key (pars (heap w ! r)) g
              \<and> guess_noisepar (pars (heap w ! r)) = Inr g
              \<and> single_run env r ind noise None verbose kwargs w
                  = single_run env r ind noise (Some g) verbose kwargs w))
       \<and> (length (filter (has_key (pars (heap w ! r))) guesses) \<noteq> 1 \<longrightarrow>
           (\<forall>a. fst (single_run env r ind noise None verbose kwargs w) \<noteq> Inr a)
           \<and> (\<forall>a v w1. seed_stage env r ind verbose w = (Inr (a, v), w1) \<longrightarrow>
                 single_run env r ind noise None verbose kwargs w
                   = (Inl (KeyError (NoGuess guesses
                        (filter (has_key (pars (heap w ! r))) guesses))), w1)))"
proof (rule conjI; rule impI)
  assume "length (filter (has_key (pars (heap w ! r))) guesses) = 1"
  from guess_noisepar_one [OF this] obtain g where g: "g \<in> set guesses"
    "has_key (pars (heap w ! r)) g" "guess_noisepar (pars (heap w ! r)) = Inr g"
    by blast
  have "single_run env r ind noise None verbose kwargs w
          = single_run env r ind noise (Some g) verbose kwargs w"
  proof (cases "seed_stage env r ind verbose w")
    case (Pair res w1)
    show ?thesis
    proof (cases res)
      case (Inl e)
      with Pair show ?thesis by (simp add: single_run_def bindM_def)
    next
      case (Inr av)
      obtain a v where av: "av = (a, v)" by (cases av)
      have "heap w1 ! r = heap w ! r"
        using seed_stage_frame [OF assms Pair] .
      with g(3) have "guess_noisepar (pars (heap w1 ! r)) = Inr g" by simp
      from after_seed_guess [OF this] Pair Inr av show ?thesis
        by (simp add: single_run_def bindM_def)
    qed
  qed
  with g show "\<exists>g \<in> set guesses. has_key (pars (heap w ! r)) g
              \<and> guess_noisepar (pars (heap w ! r)) = Inr g
              \<and> single_run env r ind noise None verbose kwargs w
                  = single_run env r ind noise (Some g) verbose kwargs w"
    by blast
next
  assume n: "length (filter (has_key (pars (heap w ! r))) guesses) \<noteq> 1"
  let ?e = "KeyError (NoGuess guesses (filter (has_key (pars (heap w ! r))) guesses))"
  have e: "guess_noisepar (pars (heap w ! r)) = Inl ?e"
    using n by (simp add: guess_noisepar_def)
  have fails: "single_run env r ind noise None verbose kwargs w = (Inl ?e, w1)"
    if "seed_stage env r ind verbose w = (Inr (a, v), w1)" for a v w1
  proof -
    have "heap w1 ! r = heap w ! r"
      using seed_stage_frame [OF assms that] .
    with e have "guess_noisepar (pars (heap w1 ! r)) = Inl ?e" by simp
    from after_seed_no_guess [OF this] that show ?thesis
      by (simp add: single_run_def bindM_def)
  qed
  have never: "fst (single_run env r ind noise None verbose kwargs w) \<noteq> Inr b" for b
  proof (cases "seed_stage env r ind verbose w")
    case (Pair res w1)
    show ?thesis
    proof (cases res)
      case (Inl e')
      with Pair show ?thesis by (simp add: single_run_def bindM_def)
    next
      case (Inr av)
      obtain a v where "av = (a, v)" by (cases av)
      with Pair Inr fails [of a v w1] show ?thesis by simp
    qed
  qed
  from fails never
  show "(\<forall>a. fst (single_run env r ind noise None verbose kwargs w) \<noteq> Inr a)
           \<and> (\<forall>a v w1. seed_stage env r ind verbose w = (Inr (a, v), w1) \<longrightarrow>
                 single_run env r ind noise None verbose kwargs w = (Inl ?e, w1))"
    by blast
qed

lemma demo2_single_run:
  "single_run demo_env 0 3 0 None None [] demo_world2 =
     (Inl (KeyError (NoGuess guesses [''r0'', ''beta''])),
      \<lparr>heap = [demo_sim\<lparr>pars := pars demo_sim @ [(''r0'', PFloat 3)]\<rparr>,
          demo_sim\<lparr>pars := [(''seed'', PInt 4), (''verbose'', PInt 0),
         (''beta'', PFloat 2), (''n'', PInt 100), (''r0'', PFloat 3)]\<rparr>], stream = Some (PInt 4)\<rparr>)"
  by (simp add: single_run_def seed_stage_def after_seed_def noisepar_stage_def noise_stage_def
      bindM_def returnM_def raiseM_def liftM_def
     dcp_def get_sim_def sim_getitem_def sim_setitem_def getitem_def setitem_def dict_get_def has_key_def
     set_seed_def cov_ut_set_seed_def normal_def run_def guess_noisepar_def guesses_def noisefactor_def demo_env_def demo_sim_def demo_world2_def)

lemma noisefactor_pos: "0 < noisefactor v"
  by (simp add: noisefactor_def)

text \<open>
  The loop over the overrides. A key that is not a parameter name raises the
  \<open>KeyError\<close> of line 344 at every numeric verbosity; with a verbosity below 1 the
  loop changes nothing when all keys are parameter names.
\<close>

lemma has_key_update: "has_key (AList.update k v d) key \<longleftrightarrow> key = k \<or> has_key d key"
  using dom_update [of k v d] by (auto simp: has_key_def)

lemma sim_setitem_keys:
  assumes "has_key (pars (heap w ! a)) key"
    and "sim_setitem env a key val w = (r, w')"
  shows "r = Inr () \<and> has_key (pars (heap w' ! a)) k = has_key (pars (heap w ! a)) k"
proof (cases "a < length (heap w)")
  case True
  with assms show ?thesis
    by (auto simp: sim_setitem_def setitem_def has_key_update)
next
  case False
  then have "(heap w)[a := x] = heap w" for x
    by (intro list_update_beyond) simp
  with assms show ?thesis
    by (auto simp: sim_setitem_def setitem_def)
qed

lemma overrides_invalid:
  assumes "\<exists>key \<in> set (map fst kwargs). \<not> has_key (pars (heap w ! a)) key"
    and "py_ge1 verbose = Inr b"
  shows "\<exists>key w'. key \<in> set (map fst kwargs) \<and> \<not> has_key (pars (heap w ! a)) key
           \<and> overrides env a verbose kwargs w = (Inl (KeyError (InvalidName key)), w')"
  using assms(1)
proof (induction kwargs arbitrary: w)
  case Nil
  then show ?case by simp
next
  case (Cons kv kwargs)
  obtain key val where kv: "kv = (key, val)" by (cases kv)
  show ?case
  proof (cases "has_key (pars (heap w ! a)) key")
    case False
    then show ?thesis
      by (auto simp: kv bindM_def get_sim_def raiseM_def)
  next
    case True
    obtain r w1 where s: "(if b then sim_setitem env a key val else returnM ()) w = (r, w1)"
      by (cases "(if b then sim_setitem env a key val else returnM ()) w")
    have r: "r = Inr ()" and k: "\<And>k. has_key (pars (heap w1 ! a)) k = has_key (pars (heap w ! a)) k"
      using s sim_setitem_keys [OF True, of env val _ w1]
      by (auto simp: returnM_def split: if_splits)
    from Cons.prems True have "\<exists>key \<in> set (map fst kwargs). \<not> has_key (pars (heap w1 ! a)) key"
      by (auto simp: kv k)
    from Cons.IH [OF this] obtain key' w' where
      "key' \<in> set (map fst kwargs)" "\<not> has_key (pars (heap w1 ! a)) key'"
      "overrides env a verbose kwargs w1 = (Inl (KeyError (InvalidName key')), w')"
      by blast
    with True s r k assms(2) show ?thesis
      by (auto simp: kv bindM_def get_sim_def liftM_def)
  qed
qed

lemma overrides_quiet:
  assumes "py_ge1 verbose = Inr False" and "\<forall>key \<in> set (map fst kwargs). has_key (pars (heap w ! a)) key"
  shows "overrides env a verbose kwargs w = (Inr (), w)"
  using assms
proof (induction kwargs)
  case Nil
  show ?case by (simp add: returnM_def)
next
  case (Cons kv kwargs)
  obtain key val where kv: "kv = (key, val)" by (cases kv)
  from Cons show ?case
    by (simp add: kv bindM_def get_sim_def liftM_def returnM_def)
qed

section \<open>Properties of single_run\<close>



text \<open>
  C10. For every template (a valid reference \<open>r\<close>) and every call of \<open>single_run\<close>
  on it, whether the call returns or raises: the object at \<open>r\<close> and every other object
  that existed before the call are what they were, exactly one object has been allocated,
  the copy, and the reference returned is the copy's, not the template's. \<open>run\<close>
  works on the copy it is called on.
\<close>

theorem single_run_template_unchanged:
  assumes "r < length (heap w)"
    and "single_run env r ind noise noisepar verbose kwargs w = (res, w')"
  shows "heap w' ! r = heap w ! r
       \<and> take (length (heap w)) (heap w') = heap w
       \<and> length (heap w') = Suc (length (heap w))
       \<and> (\<forall>a. res = Inr a \<longrightarrow> a = length (heap w) \<and> a \<noteq> r)"
proof -
  let ?n = "length (heap w)"
  let ?w1 = "w\<lparr>heap := heap w @ [heap w ! r]\<rparr>"
  have run: "on_copy env r ?n ind noise noisepar verbose kwargs ?w1 = (res, w')"
    using assms(2) by (simp add: single_run_on_copy bindM_def dcp_def)
  have "keeps ?n (on_copy env r ?n ind noise noisepar verbose kwargs)"
    by (rule keeps_on_copy) simp
  then have "take ?n (heap (snd (on_copy env r ?n ind noise noisepar verbose kwargs ?w1)))
               = take ?n (heap ?w1)
           \<and> length (heap (snd (on_copy env r ?n ind noise noisepar verbose kwargs ?w1)))
               = length (heap ?w1)"
    unfolding keeps_def by (auto dest!: spec [of _ ?w1])
  with run have t: "take ?n (heap w') = heap w" and l: "length (heap w') = Suc ?n"
    by simp_all
  have "heap w' ! r = take ?n (heap w') ! r"
    using assms(1) by simp
  with t have r: "heap w' ! r = heap w ! r" by simp
  have "\<forall>a. res = Inr a \<longrightarrow> a = ?n"
    using gives_on_copy [of ?n env r ind noise noisepar verbose kwargs] run
    by (auto simp: gives_def)
  with assms(1) r t l show ?thesis by auto
qed

theorem single_run_template_unchanged_witness:
  "(0::nat) < length (heap demo_world)
   \<and> fst (single_run demo_env 0 3 0 None None [] demo_world) = Inr 1
   \<and> heap (snd (single_run demo_env 0 3 0 None None [] demo_world)) ! 0 = heap demo_world ! 0
   \<and> length (heap (snd (single_run demo_env 0 3 0 None None [] demo_world))) = 2"
proof -
  have l: "0 < length (heap demo_world)" "length (heap demo_world) = 1"
    by (simp_all add: demo_world_def)
  have f: "fst (single_run demo_env 0 3 0 None None [] demo_world) = Inr 1"
    by (simp add: demo_single_run)
  from single_run_template_unchanged [OF l(1) surjective_pairing, of demo_env 3 0 None None "[]"] l f
  show ?thesis by simp
qed

text \<open>
  C4. For every call of \<open>single_run\<close> without a noise parameter on a template (a valid
  reference \<open>r\<close>): if exactly one of \<open>r_contact\<close>, \<open>r0\<close>, \<open>beta\<close> is a key of the
  template's parameters, the guess is that key and the call is the call with that key
  given as the noise parameter; if none or more than one is, the call never returns a
  simulation, and whenever lines 307 to 313 (copy, verbosity, seed) complete it raises
  the \<open>KeyError\<close> of line 320 (the spec's AmbiguousNoiseParameter), naming the candidates
  and those found.
\<close>

theorem single_run_guess:
  assumes "r < length (heap w)"
  shows "((\<exists>!g. g \<in> set guesses \<and> has_key (pars (heap w ! r)) g) \<longrightarrow>
           (\<exists>g \<in> set guesses. has_key (pars (heap w ! r)) g
              \<and> guess_noisepar (pars (heap w ! r)) = Inr g
              \<and> single_run env r ind noise None verbose kwargs w
                  = single_run env r ind noise (Some g) verbose kwargs w))
       \<and> (\<not> (\<exists>!g. g \<in> set guesses \<and> has_key (pars (heap w ! r)) g) \<longrightarrow>
           (\<forall>a. fst (single_run env r ind noise None verbose kwargs w) \<noteq> Inr a)
           \<and> (\<forall>a v w1. seed_stage env r ind verbose w = (Inr (a, v), w1) \<longrightarrow>
                 single_run env r ind noise None verbose kwargs w
                   = (Inl (KeyError (NoGuess guesses
                        (filter (has_key (pars (heap w ! r))) guesses))), w1)))"
  using single_run_guess_length [OF assms, of env ind noise verbose kwargs]
  unfolding one_guess [of "has_key (pars (heap w ! r))"] .

theorem single_run_guess_witness:
  "(0::nat) < length (heap demo_world)
   \<and> (\<exists>!g. g \<in> set guesses \<and> has_key (pars (heap demo_world ! 0)) g)
   \<and> has_key (pars (heap demo_world ! 0)) ''beta''
   \<and> single_run demo_env 0 3 0 None None [] demo_world
       = single_run demo_env 0 3 0 (Some ''beta'') None [] demo_world
   \<and> (0::nat) < length (heap demo_world2)
   \<and> \<not> (\<exists>!g. g \<in> set guesses \<and> has_key (pars (heap demo_world2 ! 0)) g)
   \<and> fst (single_run demo_env 0 3 0 None None [] demo_world2)
       = Inl (KeyError (NoGuess guesses [''r0'', ''beta'']))"
proof -
  have l: "0 < length (heap demo_world)" "0 < length (heap demo_world2)"
    by (simp_all add: demo_world_def demo_world2_def)
  have f1: "filter (has_key (pars (heap demo_world ! 0))) guesses = [''beta'']"
    by (simp add: demo_world_def demo_sim_def guesses_def has_key_def)
  have f2: "filter (has_key (pars (heap demo_world2 ! 0))) guesses = [''r0'', ''beta'']"
    by (simp add: demo_world2_def demo_sim_def guesses_def has_key_def)
  have u1: "\<exists>!g. g \<in> set guesses \<and> has_key (pars (heap demo_world ! 0)) g"
    using f1 by (simp add: one_guess [symmetric])
  have u2: "\<not> (\<exists>!g. g \<in> set guesses \<and> has_key (pars (heap demo_world2 ! 0)) g)"
    using f2 by (simp add: one_guess [symmetric])
  have b: "has_key (pars (heap demo_world ! 0)) ''beta''"
    by (simp add: demo_world_def demo_sim_def has_key_def)
  have g: "guess_noisepar (pars (heap demo_world ! 0)) = Inr ''beta''"
    using f1 by (simp add: guess_noisepar_def)
  from single_run_guess [OF l(1), of demo_env 3 0 None "[]"] u1 g
  have 1: "single_run demo_env 0 3 0 None None [] demo_world
       = single_run demo_env 0 3 0 (Some ''beta'') None [] demo_world"
    by auto
  from single_run_guess [OF l(2), of demo_env 3 0 None "[]"] u2
  have 2: "\<forall>a. fst (single_run demo_env 0 3 0 None None [] demo_world2) \<noteq> Inr a"
    by blast
  have 3: "fst (single_run demo_env 0 3 0 None None [] demo_world2)
       = Inl (KeyError (NoGuess guesses [''r0'', ''beta'']))"
    by (simp add: demo2_single_run)
  from l u1 u2 b 1 2 3 show ?thesis by blast
qed



text \<open>
  C2 at a concrete call. The template has \<open>verbose = 0\<close> and \<open>beta = 2\<close>; the call
  passes the override \<open>beta = 5\<close>, no noise. \<open>single_run\<close> returns the copy, whose
  \<open>beta\<close> is still 2: the override is not applied, since line 341 stands under
  \<open>if verbose>=1:\<close>. The same call with \<open>verbose=1\<close> stores 5.
\<close>

theorem single_run_quiet_override_ignored:
  "fst (single_run demo_env 0 0 0 None None [(''beta'', PFloat 5)] demo_world) = Inr 1
   \<and> getitem (pars (heap (snd (single_run demo_env 0 0 0 None None [(''beta'', PFloat 5)] demo_world)) ! 1))
        ''beta'' = Inr (PFloat 2)
   \<and> getitem (pars (heap (snd (single_run demo_env 0 0 0 None (Some (PInt 1)) [(''beta'', PFloat 5)] demo_world)) ! 1))
        ''beta'' = Inr (PFloat 5)"
  by (simp add: single_run_def seed_stage_def after_seed_def noisepar_stage_def noise_stage_def
      bindM_def returnM_def raiseM_def liftM_def
     dcp_def get_sim_def sim_getitem_def sim_setitem_def getitem_def setitem_def dict_get_def has_key_def
     set_seed_def cov_ut_set_seed_def normal_def run_def guess_noisepar_def guesses_def noisefactor_def demo_env_def demo_sim_def demo_world_def)

section \<open>Properties of multi_run\<close>

lemma iter_n_same:
  assumes "\<forall>kv \<in> set ip. int (length (snd kv)) = m"
  shows "iter_n (Some m) ip = Inr (Some m)"
  using assms by (induction ip) auto

lemma iter_n_differ:
  assumes "\<exists>kv \<in> set ip. int (length (snd kv)) \<noteq> m"
  shows "\<exists>a b. a \<noteq> b \<and> iter_n (Some m) ip = Inl (ValueError (LengthsDiffer a b))"
  using assms
proof (induction ip)
  case Nil
  then show ?case by simp
next
  case (Cons kv ip)
  obtain key val where kv: "kv = (key, val)" by (cases kv)
  show ?case
  proof (cases "int (length val) = m")
    case True
    with Cons kv show ?thesis by auto
  next
    case False
    then show ?thesis by (auto simp: kv)
  qed
qed

lemma length_parallelize:
  "parallelize env w sim noise noisepar verbose ip ks = Inr sims \<Longrightarrow> length sims = length ks"
  by (induction ks arbitrary: sims) (auto split: prod.splits sum.splits)

lemma iadd_Array_sum:
  assumes "length xs = length ys"
  shows "iadd (Array xs) (Array ys) = Inr (Array (map2 (+) xs ys))
       \<and> sum_list (map2 (+) xs ys) = sum_list xs + sum_list ys"
  using assms by (induction xs ys rule: list_induct2) simp_all

text \<open>
  The \<open>combine\<close> branch in general. When it returns, \<open>n\<close> is the first run's \<open>n\<close>
  times the number of runs and \<open>parallelized\<close> is that number. As soon as the first
  key of the second run's \<open>results_keys\<close> holds a \<open>Result\<close> in the first run, it
  raises \<open>TypeError\<close>.
\<close>

lemma add_results_Result:
  assumes "dict_get out key = Inr (ResultObj a)" and "dict_get res key = Inr b"
  shows "add_results (key # keys) out res = Inl TypeError"
  using assms by simp

lemma merge_sims_Result:
  assumes "results_keys sim = key # keys"
    and "dict_get (results output_sim) key = Inr (ResultObj a)"
    and "dict_get (results sim) key = Inr b"
  shows "merge_sims output_sim (sim # sims) = Inl TypeError"
  using assms by simp

lemma merge_sims_pars: "merge_sims output_sim sims = Inr s \<Longrightarrow> pars s = pars output_sim"
  by (induction sims arbitrary: output_sim) (auto simp: Let_def split: sum.splits)

lemma combine_sims_n:
  assumes "combine_sims n (first # others) = Inr s"
    and "dict_get (pars first) ''n'' = Inr (PInt m)"
  shows "dict_get (pars s) ''n'' = Inr (PInt (m * n))
       \<and> dict_get (pars s) ''parallelized'' = Inr (PInt n)"
proof -
  have n: "dict_get (AList.update ''parallelized'' (PInt n) (pars first)) ''n'' = Inr (PInt m)"
    using assms(2) by (simp add: dict_get_def update_conv')
  with assms(1) have "pars s = AList.update ''n'' (PInt (m * n))
      (AList.update ''parallelized'' (PInt n) (pars first))"
    by (auto simp: combine_sims_def Let_def dest!: merge_sims_pars)
  then show ?thesis
    by (simp add: dict_get_def update_conv')
qed

lemma combine_sims_Result:
  assumes "dict_get (pars first) ''n'' = Inr (PInt m)"
    and "results_keys second = key # keys"
    and "dict_get (results first) key = Inr (ResultObj a)"
    and "dict_get (results second) key = Inr b"
  shows "combine_sims n (first # second # others) = Inl TypeError"
proof -
  have "dict_get (AList.update ''parallelized'' (PInt n) (pars first)) ''n'' = Inr (PInt m)"
    using assms(1) by (simp add: dict_get_def update_conv')
  with assms show ?thesis
    by (simp add: combine_sims_def Let_def)
qed

text \<open>
  With bare arrays in \<open>results\<close> the same two runs do combine: the merged series is
  the sum, element by element, and \<open>n\<close> goes from 100 to 200.
\<close>

lemma combine_Array_sums:
  "combine_sims 2 [demo_done (Array (vals (infections 50))), demo_done (Array (vals (infections 70)))]
     = Inr (demo_sim\<lparr>pars := [(''seed'', PInt 1), (''verbose'', PInt 0), (''beta'', PFloat 2),
              (''n'', PInt 200), (''parallelized'', PInt 2)],
            results := [(''new_infections'', Array (vals (infections 120)))],
            results_keys := [''new_infections'']\<rparr>)"
  by (simp add: infections_def Result_init_def combine_sims_def demo_done_def demo_sim_def
      dict_get_def dict_update_def)

text \<open>
  C6. For every call of \<open>multi_run\<close> with a non-empty \<open>iterpars\<close>: when all its
  sequences have the length \<open>L\<close>, the number of runs is \<open>L\<close>, whatever \<open>n\<close> was
  passed, and a call that returns the list of runs returns \<open>L\<close> of them; when two
  sequences differ in length, the call raises the \<open>ValueError\<close> of line 372 (the
  spec's InconsistentIterationLength) with two different lengths, for every \<open>run\<close>,
  template and world: the check of lines 369 to 374 has already failed, and it does
  not execute \<open>single_run\<close>.
\<close>

theorem multi_run_iterpars:
  assumes "ip \<noteq> []"
  shows "((\<forall>kv \<in> set ip. length (snd kv) = L) \<longrightarrow>
            handle_iterpars n (Some ip) = Inr (Some (int L), ip)
            \<and> (\<forall>sims. multi_run env w r n noise noisepar (Some ip) verbose False = Inr (Sims sims)
                  \<longrightarrow> length sims = L))
       \<and> ((\<exists>kv \<in> set ip. \<exists>kv' \<in> set ip. length (snd kv) \<noteq> length (snd kv')) \<longrightarrow>
            (\<exists>a b. a \<noteq> b
               \<and> handle_iterpars n (Some ip) = Inl (ValueError (LengthsDiffer a b))
               \<and> multi_run env w r n noise noisepar (Some ip) verbose combine
                   = Inl (ValueError (LengthsDiffer a b))))"
proof -
  from assms obtain key val rest where ip: "ip = (key, val) # rest"
    by (cases ip) auto
  have same: "handle_iterpars n (Some ip) = Inr (Some (int L), ip)"
    if "\<forall>kv \<in> set ip. length (snd kv) = L"
  proof -
    from that have "\<forall>kv \<in> set rest. int (length (snd kv)) = int L" "length val = L"
      by (auto simp: ip)
    then show ?thesis
      using iter_n_same [of rest "int L"] by (simp add: handle_iterpars_def ip)
  qed
  have runs: "length sims = L"
    if "\<forall>kv \<in> set ip. length (snd kv) = L"
      and "multi_run env w r n noise noisepar (Some ip) verbose False = Inr (Sims sims)" for sims
    using same [OF that(1)] that(2) length_parallelize [of env w r noise noisepar verbose ip "[0..<L]"]
    by (auto simp: multi_run_def split: sum.splits)
  have differ: "\<exists>a b. a \<noteq> b
               \<and> handle_iterpars n (Some ip) = Inl (ValueError (LengthsDiffer a b))
               \<and> multi_run env w r n noise noisepar (Some ip) verbose combine
                   = Inl (ValueError (LengthsDiffer a b))"
    if "\<exists>kv \<in> set ip. \<exists>kv' \<in> set ip. length (snd kv) \<noteq> length (snd kv')"
  proof -
    have "\<exists>kv \<in> set rest. length (snd kv) \<noteq> length val"
    proof (rule ccontr)
      assume "\<not> (\<exists>kv \<in> set rest. length (snd kv) \<noteq> length val)"
      then have "\<forall>kv \<in> set ip. length (snd kv) = length val"
        by (auto simp: ip)
      with that show False by metis
    qed
    then have "\<exists>kv \<in> set rest. int (length (snd kv)) \<noteq> int (length val)"
      by simp
    from iter_n_differ [OF this] obtain a b where
      "a \<noteq> b" "iter_n (Some (int (length val))) rest = Inl (ValueError (LengthsDiffer a b))"
      by blast
    then show ?thesis
      by (auto simp: handle_iterpars_def multi_run_def ip)
  qed
  from same runs differ show ?thesis by blast
qed

theorem multi_run_iterpars_witness:
  "[(''beta'', [PFloat 1, PFloat 2, PFloat 3, PFloat 4])] \<noteq> []
   \<and> handle_iterpars 7 (Some [(''beta'', [PFloat 1, PFloat 2, PFloat 3, PFloat 4])])
       = Inr (Some 4, [(''beta'', [PFloat 1, PFloat 2, PFloat 3, PFloat 4])])
   \<and> [(''a'', [PInt 1, PInt 2]), (''b'', [PInt 1, PInt 2, PInt 3])] \<noteq> []
   \<and> multi_run demo_env demo_world 0 7 0 None
        (Some [(''a'', [PInt 1, PInt 2]), (''b'', [PInt 1, PInt 2, PInt 3])]) None False
       = Inl (ValueError (LengthsDiffer 2 3))"
proof -
  have 1: "[(''beta'', [PFloat 1, PFloat 2, PFloat 3, PFloat 4])] \<noteq> []"
    and 2: "[(''a'', [PInt 1, PInt 2]), (''b'', [PInt 1, PInt 2, PInt 3])] \<noteq> []"
    by simp_all
  from multi_run_iterpars [OF 1, of 4 7 demo_env demo_world 0 0 None None False]
  have 3: "handle_iterpars 7 (Some [(''beta'', [PFloat 1, PFloat 2, PFloat 3, PFloat 4])])
       = Inr (Some 4, [(''beta'', [PFloat 1, PFloat 2, PFloat 3, PFloat 4])])"
    by simp
  from multi_run_iterpars [OF 2, of 0 7 demo_env demo_world 0 0 None None False]
  obtain a b where "multi_run demo_env demo_world 0 7 0 None
        (Some [(''a'', [PInt 1, PInt 2]), (''b'', [PInt 1, PInt 2, PInt 3])]) None False
       = Inl (ValueError (LengthsDiffer a b))"
    "handle_iterpars 7 (Some [(''a'', [PInt 1, PInt 2]), (''b'', [PInt 1, PInt 2, PInt 3])])
       = Inl (ValueError (LengthsDiffer a b))"
    by auto
  then have 4: "multi_run demo_env demo_world 0 7 0 None
        (Some [(''a'', [PInt 1, PInt 2]), (''b'', [PInt 1, PInt 2, PInt 3])]) None False
       = Inl (ValueError (LengthsDiffer 2 3))"
    by (simp add: handle_iterpars_def)
  from 1 2 3 4 show ?thesis by simp
qed

text \<open>
  C1 at a concrete call. Two completed runs of eleven points whose
  \<open>new_infections\<close> are \<open>Result\<close> objects summing to 50 and to 70: the \<open>combine\<close>
  branch does not return a merged simulation with the sum 120, it raises \<open>TypeError\<close>
  at line 392, because \<open>Result\<close> defines no addition. The same holds for the whole
  \<open>multi_run(sim, n=2, combine=True)\<close> whose runs produce these results.
\<close>

theorem combine_Result_TypeError:
  "npts (infections 50) = 11 \<and> npts (infections 70) = 11
   \<and> sum_list (vals (infections 50)) = 50 \<and> sum_list (vals (infections 70)) = 70
   \<and> combine_sims 2 [demo_done (ResultObj (infections 50)), demo_done (ResultObj (infections 70))]
       = Inl TypeError
   \<and> multi_run demo_env_results demo_world 0 2 0 None None None True = Inl TypeError"
  by (simp add: npts_def infections_def Result_init_def combine_sims_def demo_done_def demo_sim_def
      dict_get_def dict_update_def numeral_2_eq_2
      multi_run_def handle_iterpars_def upt_rec [of 0]
      single_run_def seed_stage_def after_seed_def noisepar_stage_def noise_stage_def
      bindM_def returnM_def raiseM_def liftM_def
     dcp_def get_sim_def sim_getitem_def sim_setitem_def getitem_def setitem_def dict_get_def has_key_def
     set_seed_def cov_ut_set_seed_def normal_def run_def guess_noisepar_def guesses_def noisefactor_def demo_env_results_def
     demo_env_def demo_sim_def demo_world_def)

end
